theory Spec2Isabelle
  imports Main "HOL-Library.Sublist"
begin

section \<open>Trust levels and security policy\<close>

text \<open>
  The three trust classifications (\<^verbatim>\<open>ExtendedActionState\<close>: \<^verbatim>\<open>'trusted' | 'unknown' | 'malicious'\<close>),
  the closed set of policies (\<^verbatim>\<open>SecurityLevel\<close>) and the classification domains
  (\<^verbatim>\<open>type Source = 'websites' | 'interstitials' | 'actions'\<close>).
\<close>

datatype ExtendedActionState = Trusted | Unknown | Malicious

datatype SecurityLevel = OnlyTrusted | NonMalicious | AllLevels

datatype Source = Websites | Interstitials | Actions

text \<open>
  \<^verbatim>\<open>type NormalizedSecurityLevel = Record<Source, SecurityLevel>\<close>: a total table keyed by
  the domain; \<^verbatim>\<open>normalizedSecurityLevel.actions\<close> is \<open>nsl Actions\<close> and
  \<^verbatim>\<open>normalizedSecurityLevel[state.originType]\<close> is \<open>nsl typ\<close>.
\<close>

type_synonym NormalizedSecurityLevel = "Source \<Rightarrow> SecurityLevel"

text \<open>
  Modelled from the spec: \<^verbatim>\<open>checkSecurity\<close> is imported from \<^verbatim>\<open>'../shared'\<close>, which is not among
  the source files. Section 4.2, \<^verbatim>\<open>admits(level, policy)\<close>: the strictest policy admits only
  \<^verbatim>\<open>trusted\<close>; the middle policy admits \<^verbatim>\<open>trusted\<close> and \<^verbatim>\<open>unknown\<close> but not \<^verbatim>\<open>malicious\<close>; the
  permissive policy admits everything.
\<close>

fun checkSecurity :: "ExtendedActionState \<Rightarrow> SecurityLevel \<Rightarrow> bool" where
  "checkSecurity state OnlyTrusted = (state = Trusted)"
| "checkSecurity state NonMalicious = (state \<noteq> Malicious)"
| "checkSecurity state AllLevels = True"

text \<open>
  Modelled from the spec: \<^verbatim>\<open>mergeActionStates\<close> is imported from \<^verbatim>\<open>'../api'\<close>, which is not among
  the source files. Section 4.2, \<^verbatim>\<open>merge(a, b?)\<close>: returns \<open>a\<close> if \<open>b\<close> is absent; otherwise the
  more restrictive of the two in the order \<^verbatim>\<open>malicious > unknown > trusted\<close>. The container
  calls it with the list \<^verbatim>\<open>[action, origin].filter(Boolean)\<close>, that is with one or two levels.
\<close>

fun restrictiveness :: "ExtendedActionState \<Rightarrow> nat" where
  "restrictiveness Trusted = 0"
| "restrictiveness Unknown = 1"
| "restrictiveness Malicious = 2"

fun mergeActionStates :: "ExtendedActionState \<Rightarrow> ExtendedActionState option \<Rightarrow> ExtendedActionState" where
  "mergeActionStates a None = a"
| "mergeActionStates a (Some b) = (if restrictiveness b \<le> restrictiveness a then a else b)"

section \<open>Action state with origin\<close>

text \<open>
  \<^verbatim>\<open>type ActionStateWithOrigin =
    | { action: ExtendedActionState; origin?: never }
    | { action: ExtendedActionState; origin: ExtendedActionState; originType: Source }\<close>
\<close>

datatype ActionStateWithOrigin =
    ActionOnly ExtendedActionState
  | ActionWithOrigin ExtendedActionState ExtendedActionState Source

fun action :: "ActionStateWithOrigin \<Rightarrow> ExtendedActionState" where
  "action (ActionOnly a) = a"
| "action (ActionWithOrigin a org typ) = a"

text \<open>\<open>origin state = None\<close> is \<^verbatim>\<open>state.origin === undefined\<close>.\<close>

fun origin :: "ActionStateWithOrigin \<Rightarrow> ExtendedActionState option" where
  "origin (ActionOnly a) = None"
| "origin (ActionWithOrigin a org typ) = Some org"

text \<open>
  \<^verbatim>\<open>return checkSecurity(state.action, normalizedSecurityLevel.actions) &&
    state.origin
    ? checkSecurity(state.origin, normalizedSecurityLevel[state.originType])
    : true;\<close>

  In JavaScript \<^verbatim>\<open>&&\<close> binds tighter than \<^verbatim>\<open>? :\<close>, so the conjunction is the condition of
  the conditional expression. An origin, when present, is one of three non-empty strings and
  therefore truthy. The inner \<open>ActionOnly\<close> branch is never reached: the condition has
  established that the origin is present.
\<close>

definition checkSecurityFromActionState ::
    "ActionStateWithOrigin \<Rightarrow> NormalizedSecurityLevel \<Rightarrow> bool" where
  "checkSecurityFromActionState state normalizedSecurityLevel =
     (if checkSecurity (action state) (normalizedSecurityLevel Actions) \<and> origin state \<noteq> None
      then (case state of
              ActionWithOrigin a org typ \<Rightarrow> checkSecurity org (normalizedSecurityLevel typ)
            | ActionOnly a \<Rightarrow> True)
      else True)"

text \<open>
  The admission decision in the words of the specification (section 4.2, \<^verbatim>\<open>evaluate\<close>):
  \<^verbatim>\<open>admitted = admits(actionLevel, policy.actions) AND
     (originLevel absent OR admits(originLevel, policy[originDomain]))\<close>.
  It is used only to compare the function of the source with the specification.
\<close>

definition spec_admitted :: "ActionStateWithOrigin \<Rightarrow> NormalizedSecurityLevel \<Rightarrow> bool" where
  "spec_admitted state policy =
     (checkSecurity (action state) (policy Actions) \<and>
      (case state of
         ActionOnly a \<Rightarrow> True
       | ActionWithOrigin a org typ \<Rightarrow> checkSecurity org (policy typ)))"

section \<open>Actions and their components\<close>

text \<open>
  A field declared \<^verbatim>\<open>f?: T | null\<close> holds \<^verbatim>\<open>undefined\<close>, \<^verbatim>\<open>null\<close> or a value; the reducer
  distinguishes a field it leaves out from one it sets to \<^verbatim>\<open>null\<close>.
\<close>

datatype 'a nullable = Undefined | Null | Defined 'a

text \<open>The optional single parameter of a component: \<^verbatim>\<open>{ name, label }\<close>.\<close>

datatype Parameter = Parameter (parameter_name: string) (parameter_label: string)

text \<open>
  \<^verbatim>\<open>ActionComponent\<close> is a class of \<^verbatim>\<open>'../api'\<close>; the container reads \<^verbatim>\<open>label\<close> and \<^verbatim>\<open>parameter\<close>,
  calls \<^verbatim>\<open>setValue\<close> and \<^verbatim>\<open>post\<close>, and compares components with \<^verbatim>\<open>===\<close>. The field \<open>ref\<close> is
  the identity of the object, so that equality of the records is \<^verbatim>\<open>===\<close>.
\<close>

record ActionComponent =
  ref :: nat
  label :: string
  parameter :: "Parameter option"

text \<open>
  A value thrown by a protocol step, or the reason of its rejected promise. The handler reads
  only \<^verbatim>\<open>(e as Error).message\<close>, and the cast checks nothing at run time. For every value other
  than \<^verbatim>\<open>null\<close> and \<^verbatim>\<open>undefined\<close> the property is a string, \<^verbatim>\<open>null\<close> or \<^verbatim>\<open>undefined\<close> (a thrown
  string or number has no \<^verbatim>\<open>message\<close>): \<open>Thrown m\<close>. For \<^verbatim>\<open>null\<close> and \<^verbatim>\<open>undefined\<close> themselves
  the property access raises a \<^verbatim>\<open>TypeError\<close>: \<open>ThrownNullish\<close>.
\<close>

datatype Thrown = Thrown "string nullable" | ThrownNullish

text \<open>The error raised inside the \<^verbatim>\<open>catch\<close> handler itself.\<close>

datatype HandlerError = TypeError

text \<open>The response of \<^verbatim>\<open>component.post(account)\<close>: \<^verbatim>\<open>tx.transaction\<close> and \<^verbatim>\<open>tx.message\<close>.\<close>

record PostResponse =
  transaction :: string
  message :: "string nullable"

text \<open>
  Modelled from the spec: the result type of \<^verbatim>\<open>signTransaction\<close> and the guard
  \<^verbatim>\<open>isSignTransactionError\<close> (\<^verbatim>\<open>'../utils/type-guards.ts'\<close>) are not among the source files.
  Section 6: \<^verbatim>\<open>signTransaction(payload, context) \<rightarrow> SignResult|SignError\<close>; a sign result carries
  the \<^verbatim>\<open>signature\<close> passed on to \<^verbatim>\<open>confirmTransaction\<close>. A falsy result is \<open>None\<close>, and
  \<^verbatim>\<open>isSignTransactionError(signResult)\<close> is the test for the constructor \<open>SignError\<close>.
\<close>

datatype SignResult = SignError string | Signature string

text \<open>
  \<^verbatim>\<open>ActionContext\<close>, without the back reference \<^verbatim>\<open>action: component.parent\<close> to the action
  itself.
\<close>

record ActionContext =
  actionType :: ExtendedActionState
  originalUrl :: string
  triggeredLinkedAction :: ActionComponent

text \<open>
  The adapter (\<^verbatim>\<open>action.adapter\<close>) is an external collaborator; every call either throws
  (\<open>Inl\<close>) or returns (\<open>Inr\<close>). \<^verbatim>\<open>connect\<close> resolves to an account string or \<^verbatim>\<open>null\<close>.
\<close>

record ActionAdapter =
  connect :: "ActionContext \<Rightarrow> Thrown + string option"
  signTransaction :: "string \<Rightarrow> ActionContext \<Rightarrow> Thrown + SignResult option"
  confirmTransaction :: "string \<Rightarrow> ActionContext \<Rightarrow> Thrown + unit"

text \<open>
  The resolved action: its \<^verbatim>\<open>url\<close>, its ordered components \<^verbatim>\<open>actions\<close>, the \<^verbatim>\<open>disabled\<close> flag and
  the adapter. \<open>post\<close> is the method \<^verbatim>\<open>component.post(account)\<close> of the components of this
  action, a network request whose result is a parameter of the model.
\<close>

record Action =
  url :: string
  actions :: "ActionComponent list"
  disabled :: bool
  adapter :: ActionAdapter
  post :: "ActionComponent \<Rightarrow> string \<Rightarrow> Thrown + PostResponse"

section \<open>Trust lookups\<close>

text \<open>
  The registry lookups \<^verbatim>\<open>getExtendedActionState\<close>, \<^verbatim>\<open>getExtendedInterstitialState\<close>,
  \<^verbatim>\<open>getExtendedWebsiteState\<close> (\<^verbatim>\<open>'../api'\<close>) and the classifier \<^verbatim>\<open>isInterstitial\<close>
  (\<^verbatim>\<open>'../utils/interstitial-url.ts'\<close>) are not among the source files; the current registry
  snapshot is a parameter. An action is looked up by its URL.
\<close>

record TrustLookups =
  getExtendedActionState :: "string \<Rightarrow> ExtendedActionState"
  getExtendedInterstitialState :: "string \<Rightarrow> ExtendedActionState"
  getExtendedWebsiteState :: "string \<Rightarrow> ExtendedActionState"
  isInterstitial :: "string \<Rightarrow> bool"

text \<open>
  \<^verbatim>\<open>getOverallActionState(action, websiteUrl)\<close>. \<^verbatim>\<open>websiteUrl\<close> is \<^verbatim>\<open>string | null | undefined\<close>;
  the test \<^verbatim>\<open>websiteUrl ? ... : null\<close> is also false for the empty string.
\<close>

definition getOverallActionState ::
    "TrustLookups \<Rightarrow> Action \<Rightarrow> string option \<Rightarrow> ActionStateWithOrigin" where
  "getOverallActionState lookups act websiteUrl =
     (let actionState = getExtendedActionState lookups (url act)
      in case websiteUrl of
           None \<Rightarrow> ActionOnly actionState
         | Some u \<Rightarrow>
             if u = [] then ActionOnly actionState
             else if isInterstitial lookups u
               then ActionWithOrigin actionState (getExtendedInterstitialState lookups u) Interstitials
               else ActionWithOrigin actionState (getExtendedWebsiteState lookups u) Websites)"

section \<open>Execution state and reducer\<close>

datatype ExecutionStatus = Blocked | Idle | Executing | Success | Error

record ExecutionState =
  status :: ExecutionStatus
  executingAction :: "ActionComponent nullable"
  errorMessage :: "string nullable"
  successMessage :: "string nullable"

text \<open>
  The tagged union \<^verbatim>\<open>ActionValue\<close>. The optional \<^verbatim>\<open>errorMessage\<close> of \<^verbatim>\<open>INITIATE\<close> is never set
  nor read and is left out.
\<close>

datatype ActionValue =
    INITIATE ActionComponent
  | FINISH "string nullable"
  | FAIL string
  | RESET
  | UNBLOCK
  | BLOCK

fun executionReducer :: "ExecutionState \<Rightarrow> ActionValue \<Rightarrow> ExecutionState" where
  "executionReducer state (INITIATE component) =
     \<lparr>status = Executing, executingAction = Defined component,
      errorMessage = Undefined, successMessage = Undefined\<rparr>"
| "executionReducer state (FINISH msg) =
     state\<lparr>status := Success, successMessage := msg, errorMessage := Null\<rparr>"
| "executionReducer state (FAIL msg) =
     state\<lparr>status := Error, errorMessage := Defined msg, successMessage := Null\<rparr>"
| "executionReducer state RESET =
     \<lparr>status = Idle, executingAction = Undefined,
      errorMessage = Undefined, successMessage = Undefined\<rparr>"
| "executionReducer state BLOCK =
     \<lparr>status = Blocked, executingAction = Undefined,
      errorMessage = Undefined, successMessage = Undefined\<rparr>"
| "executionReducer state UNBLOCK =
     \<lparr>status = Idle, executingAction = Undefined,
      errorMessage = Undefined, successMessage = Undefined\<rparr>"

datatype ButtonVariant = VariantDefault | VariantSuccess | VariantError

fun buttonVariantMap :: "ExecutionStatus \<Rightarrow> ButtonVariant" where
  "buttonVariantMap Blocked = VariantDefault"
| "buttonVariantMap Idle = VariantDefault"
| "buttonVariantMap Executing = VariantDefault"
| "buttonVariantMap Success = VariantSuccess"
| "buttonVariantMap Error = VariantError"

fun buttonLabelMap :: "ExecutionStatus \<Rightarrow> string option" where
  "buttonLabelMap Blocked = None"
| "buttonLabelMap Idle = None"
| "buttonLabelMap Executing = Some ''Executing''"
| "buttonLabelMap Success = Some ''Completed''"
| "buttonLabelMap Error = Some ''Failed''"

section \<open>The action container\<close>

definition SOFT_LIMIT_BUTTONS :: nat where
  "SOFT_LIMIT_BUTTONS = 10"

definition SOFT_LIMIT_INPUTS :: nat where
  "SOFT_LIMIT_INPUTS = 3"

definition DEFAULT_SECURITY_LEVEL :: SecurityLevel where
  "DEFAULT_SECURITY_LEVEL = OnlyTrusted"

text \<open>
  The property \<^verbatim>\<open>securityLevel?: SecurityLevel | NormalizedSecurityLevel\<close> and its normalisation
  (the \<^verbatim>\<open>useMemo\<close> at the head of \<^verbatim>\<open>ActionContainer\<close>); an omitted property takes the default.
\<close>

datatype SecurityLevelProp = Uniform SecurityLevel | PerSource NormalizedSecurityLevel

fun normalizedSecurityLevel :: "SecurityLevelProp option \<Rightarrow> NormalizedSecurityLevel" where
  "normalizedSecurityLevel None =
     (\<lambda>source. case source of Websites \<Rightarrow> DEFAULT_SECURITY_LEVEL
        | Interstitials \<Rightarrow> DEFAULT_SECURITY_LEVEL | Actions \<Rightarrow> DEFAULT_SECURITY_LEVEL)"
| "normalizedSecurityLevel (Some (Uniform securityLevel)) =
     (\<lambda>source. case source of Websites \<Rightarrow> securityLevel
        | Interstitials \<Rightarrow> securityLevel | Actions \<Rightarrow> securityLevel)"
| "normalizedSecurityLevel (Some (PerSource securityLevel)) = securityLevel"

text \<open>
  The two pieces of React state of one mounted container: \<^verbatim>\<open>actionState\<close> (\<^verbatim>\<open>useState\<close>) and
  \<^verbatim>\<open>executionState\<close> (\<^verbatim>\<open>useReducer\<close>).
\<close>

record ContainerState =
  actionState :: ActionStateWithOrigin
  executionState :: ExecutionState

text \<open>
  \<^verbatim>\<open>overallState = mergeActionStates(...[actionState.action, actionState.origin].filter(Boolean))\<close>
  and \<^verbatim>\<open>isPassingSecurityCheck\<close>, both recomputed from \<^verbatim>\<open>actionState\<close> at every render.
\<close>

definition overallState :: "ActionStateWithOrigin \<Rightarrow> ExtendedActionState" where
  "overallState state = mergeActionStates (action state) (origin state)"

definition isPassingSecurityCheck :: "NormalizedSecurityLevel \<Rightarrow> ContainerState \<Rightarrow> bool" where
  "isPassingSecurityCheck nsl cs = checkSecurityFromActionState (actionState cs) nsl"

text \<open>
  The state of a freshly mounted container: \<^verbatim>\<open>useState(getOverallActionState(action, websiteUrl))\<close>
  and \<^verbatim>\<open>useReducer(executionReducer, { status: overallState !== 'malicious' &&
  isPassingSecurityCheck ? 'idle' : 'blocked' })\<close>.
\<close>

definition mount ::
    "TrustLookups \<Rightarrow> Action \<Rightarrow> string option \<Rightarrow> NormalizedSecurityLevel \<Rightarrow> ContainerState" where
  "mount lookups act websiteUrl nsl =
     (let initialActionState = getOverallActionState lookups act websiteUrl
      in \<lparr>actionState = initialActionState,
          executionState =
            \<lparr>status =
               (if overallState initialActionState \<noteq> Malicious \<and>
                   checkSecurityFromActionState initialActionState nsl
                then Idle else Blocked),
             executingAction = Undefined, errorMessage = Undefined,
             successMessage = Undefined\<rparr>\<rparr>)"

text \<open>
  The rendered component lists. \<^verbatim>\<open>toSpliced(n)\<close> with one argument removes everything from index
  \<open>n\<close> on and returns the rest, the first \<open>n\<close> elements. An \<^verbatim>\<open>executingAction\<close> is truthy exactly
  when it holds a component.
\<close>

definition isExecutingOrNone :: "ExecutionState \<Rightarrow> ActionComponent \<Rightarrow> bool" where
  "isExecutingOrNone es it =
     (case executingAction es of Defined c \<Rightarrow> c = it | Null \<Rightarrow> True | Undefined \<Rightarrow> True)"

definition buttons :: "Action \<Rightarrow> ExecutionState \<Rightarrow> ActionComponent list" where
  "buttons act es =
     take SOFT_LIMIT_BUTTONS
       (filter (isExecutingOrNone es) (filter (\<lambda>it. parameter it = None) (actions act)))"

definition inputs :: "Action \<Rightarrow> ExecutionState \<Rightarrow> ActionComponent list" where
  "inputs act es =
     take SOFT_LIMIT_INPUTS
       (filter (isExecutingOrNone es) (filter (\<lambda>it. parameter it \<noteq> None) (actions act)))"

text \<open>\<^verbatim>\<open>asButtonProps\<close>, without the \<^verbatim>\<open>onClick\<close> closure, which calls \<^verbatim>\<open>execute(it, params)\<close>.\<close>

record ButtonProps =
  button_text :: string
  loading :: bool
  button_disabled :: bool
  variant :: ButtonVariant

definition asButtonProps :: "Action \<Rightarrow> ExecutionState \<Rightarrow> ActionComponent \<Rightarrow> ButtonProps" where
  "asButtonProps act es it =
     \<lparr>button_text = (case buttonLabelMap (status es) of Some l \<Rightarrow> l | None \<Rightarrow> label it),
      loading = (status es = Executing \<and> Defined it = executingAction es),
      button_disabled = (disabled act \<or> status es \<noteq> Idle),
      variant = buttonVariantMap (status es)\<rparr>"

text \<open>
  The \<^verbatim>\<open>disclaimer\<close> memo: the error snackbar with the sentence of the provider and with the
  button ``Ignore warning \<open>&\<close> proceed'', the warning snackbar, or nothing.
\<close>

datatype Disclaimer =
    ErrorSnackbar (providerBlocks: bool) (ignoreWarningButton: bool)
  | WarningSnackbar bool
  | NoDisclaimer

definition disclaimer :: "NormalizedSecurityLevel \<Rightarrow> ContainerState \<Rightarrow> Disclaimer" where
  "disclaimer nsl cs =
     (if overallState (actionState cs) = Malicious \<and> status (executionState cs) = Blocked
      then ErrorSnackbar (\<not> isPassingSecurityCheck nsl cs) (isPassingSecurityCheck nsl cs)
      else if overallState (actionState cs) = Unknown
      then WarningSnackbar (\<not> isPassingSecurityCheck nsl cs)
      else NoDisclaimer)"

text \<open>
  The override: the click handler \<^verbatim>\<open>dispatch({ type: ExecutionType.UNBLOCK })\<close> exists only on the
  button of the error snackbar; \<open>None\<close> means that no such button is rendered.
\<close>

definition ignoreWarningAndProceed ::
    "NormalizedSecurityLevel \<Rightarrow> ContainerState \<Rightarrow> ContainerState option" where
  "ignoreWarningAndProceed nsl cs =
     (case disclaimer nsl cs of
        ErrorSnackbar blocks True \<Rightarrow>
          Some (cs\<lparr>executionState := executionReducer (executionState cs) UNBLOCK\<rparr>)
      | ErrorSnackbar blocks False \<Rightarrow> None
      | WarningSnackbar blocks \<Rightarrow> None
      | NoDisclaimer \<Rightarrow> None)"

section \<open>Execution\<close>

text \<open>
  What one call of the asynchronous \<^verbatim>\<open>execute\<close> does, in order: the value it stores in the
  component, the state updates it requests and the protocol steps it awaits; \<open>Reject\<close> is the
  end of a call whose \<^verbatim>\<open>catch\<close> handler raised, so that the promise of \<^verbatim>\<open>execute\<close> rejects.
\<close>

datatype ProtocolStep = Connect | Post | SignTransaction | ConfirmTransaction

datatype Effect =
    SetValue "string option"
  | SetActionState ActionStateWithOrigin
  | Dispatch ActionValue
  | Await ProtocolStep
  | Reject HandlerError

text \<open>
  The body of the \<^verbatim>\<open>try\<close> block: the effects performed, and the value thrown if a step threw.
  \<^verbatim>\<open>!account\<close> holds for \<^verbatim>\<open>null\<close> and for the empty string.
\<close>

definition tryBody ::
    "Action \<Rightarrow> ActionComponent \<Rightarrow> ActionContext \<Rightarrow> Effect list \<times> Thrown option" where
  "tryBody act component context =
     (case connect (adapter act) context of
        Inl e \<Rightarrow> ([Await Connect], Some e)
      | Inr None \<Rightarrow> ([Await Connect, Dispatch RESET], None)
      | Inr (Some account) \<Rightarrow>
          if account = [] then ([Await Connect, Dispatch RESET], None)
          else
            (case post act component account of
               Inl e \<Rightarrow> ([Await Connect, Await Post], Some e)
             | Inr tx \<Rightarrow>
                 (case signTransaction (adapter act) (transaction tx) context of
                    Inl e \<Rightarrow> ([Await Connect, Await Post, Await SignTransaction], Some e)
                  | Inr None \<Rightarrow>
                      ([Await Connect, Await Post, Await SignTransaction, Dispatch RESET], None)
                  | Inr (Some signResult) \<Rightarrow>
                      (case signResult of
                         SignError err \<Rightarrow>
                           ([Await Connect, Await Post, Await SignTransaction, Dispatch RESET],
                            None)
                       | Signature signature \<Rightarrow>
                           (case confirmTransaction (adapter act) signature context of
                              Inl e \<Rightarrow>
                                ([Await Connect, Await Post, Await SignTransaction,
                                  Await ConfirmTransaction], Some e)
                            | Inr u \<Rightarrow>
                                ([Await Connect, Await Post, Await SignTransaction,
                                  Await ConfirmTransaction, Dispatch (FINISH (message tx))],
                                 None))))))"

text \<open>
  \<^verbatim>\<open>(e as Error).message ?? 'Unknown error'\<close>: the fallback replaces a \<^verbatim>\<open>message\<close> that is \<^verbatim>\<open>null\<close> or
  \<^verbatim>\<open>undefined\<close>; reading \<^verbatim>\<open>message\<close> off \<^verbatim>\<open>null\<close> or \<^verbatim>\<open>undefined\<close> raises.
\<close>

fun thrownMessage :: "Thrown \<Rightarrow> HandlerError + string" where
  "thrownMessage (Thrown (Defined msg)) = Inr msg"
| "thrownMessage (Thrown Null) = Inr ''Unknown error''"
| "thrownMessage (Thrown Undefined) = Inr ''Unknown error''"
| "thrownMessage ThrownNullish = Inl TypeError"

text \<open>
  The head of \<^verbatim>\<open>execute\<close>:
  \<^verbatim>\<open>if (component.parameter && params) component.setValue(params[component.parameter.name])\<close>.
  \<^verbatim>\<open>params\<close> is an optional record of strings.
\<close>

definition setValueEffects :: "ActionComponent \<Rightarrow> (string \<rightharpoonup> string) option \<Rightarrow> Effect list" where
  "setValueEffects component params =
     (case parameter component of
        None \<Rightarrow> []
      | Some p \<Rightarrow> (case params of None \<Rightarrow> [] | Some ps \<Rightarrow> [SetValue (ps (parameter_name p))]))"

text \<open>
  The \<^verbatim>\<open>context\<close> of \<^verbatim>\<open>execute\<close>: \<^verbatim>\<open>actionType: actionState.action\<close> (the stored classification),
  \<^verbatim>\<open>originalUrl: websiteUrl ?? component.parent.url\<close>, \<^verbatim>\<open>triggeredLinkedAction: component\<close>.
\<close>

definition executionContext ::
    "Action \<Rightarrow> string option \<Rightarrow> ContainerState \<Rightarrow> ActionComponent \<Rightarrow> ActionContext" where
  "executionContext act websiteUrl cs component =
     \<lparr>actionType = action (actionState cs),
      originalUrl = (case websiteUrl of Some u \<Rightarrow> u | None \<Rightarrow> url act),
      triggeredLinkedAction = component\<rparr>"

text \<open>
  \<^verbatim>\<open>execute(component, params)\<close>, called with the registry snapshot of the moment of the call.
  \<open>cs\<close> is the state the closure was rendered with. The single \<^verbatim>\<open>catch\<close> handler evaluates
  the error message first and then dispatches \<^verbatim>\<open>FAIL\<close>; when the evaluation raises, nothing is
  dispatched.
\<close>

definition execute ::
    "TrustLookups \<Rightarrow> Action \<Rightarrow> string option \<Rightarrow> NormalizedSecurityLevel \<Rightarrow> ContainerState \<Rightarrow>
     ActionComponent \<Rightarrow> (string \<rightharpoonup> string) option \<Rightarrow> Effect list" where
  "execute lookups act websiteUrl nsl cs component params =
     setValueEffects component params @
     (let newActionState = getOverallActionState lookups act websiteUrl;
          newIsPassingSecurityCheck = checkSecurityFromActionState newActionState nsl
      in if (action newActionState \<noteq> action (actionState cs) \<or>
             origin newActionState \<noteq> origin (actionState cs)) \<and>
            \<not> newIsPassingSecurityCheck
         then [SetActionState newActionState, Dispatch BLOCK]
         else
           Dispatch (INITIATE component) #
           (case tryBody act component (executionContext act websiteUrl cs component) of
              (effects, Some e) \<Rightarrow>
                (case thrownMessage e of
                   Inr msg \<Rightarrow> effects @ [Dispatch (FAIL msg)]
                 | Inl err \<Rightarrow> effects @ [Reject err])
            | (effects, None) \<Rightarrow> effects))"

text \<open>The state updates of a list of effects, applied in order.\<close>

fun applyEffect :: "ContainerState \<Rightarrow> Effect \<Rightarrow> ContainerState" where
  "applyEffect cs (SetValue v) = cs"
| "applyEffect cs (SetActionState s) = cs\<lparr>actionState := s\<rparr>"
| "applyEffect cs (Dispatch a) = cs\<lparr>executionState := executionReducer (executionState cs) a\<rparr>"
| "applyEffect cs (Await step) = cs"
| "applyEffect cs (Reject err) = cs"

definition applyEffects :: "ContainerState \<Rightarrow> Effect list \<Rightarrow> ContainerState" where
  "applyEffects cs effects = foldl applyEffect cs effects"

text \<open>The protocol steps among the effects.\<close>

fun protocolSteps :: "Effect list \<Rightarrow> ProtocolStep list" where
  "protocolSteps [] = []"
| "protocolSteps (Await step # effects) = step # protocolSteps effects"
| "protocolSteps (e # effects) = protocolSteps effects"

section \<open>Concrete inputs\<close>

text \<open>
  Inputs at which the theorems below are evaluated: three components, an adapter and a
  \<^verbatim>\<open>post\<close> with given outcomes, and a registry snapshot with one level for every action and one
  for every origin.
\<close>

definition example_button :: ActionComponent where
  "example_button = \<lparr>ref = 1, label = ''Swap'', parameter = None\<rparr>"

definition example_other_button :: ActionComponent where
  "example_other_button = \<lparr>ref = 2, label = ''Stake'', parameter = None\<rparr>"

definition example_input :: ActionComponent where
  "example_input = \<lparr>ref = 3, label = ''Send'', parameter = Some (Parameter ''amount'' ''Amount'')\<rparr>"

definition example_adapter ::
    "Thrown + string option \<Rightarrow> Thrown + SignResult option \<Rightarrow> Thrown + unit \<Rightarrow> ActionAdapter" where
  "example_adapter connected signed confirmed =
     \<lparr>connect = (\<lambda>context. connected),
      signTransaction = (\<lambda>tx context. signed),
      confirmTransaction = (\<lambda>signature context. confirmed)\<rparr>"

definition example_action :: "ActionAdapter \<Rightarrow> Thrown + PostResponse \<Rightarrow> Action" where
  "example_action ad posted =
     \<lparr>url = ''https://example.org/api/swap'',
      actions = [example_button, example_other_button, example_input],
      disabled = False,
      adapter = ad,
      post = (\<lambda>component account. posted)\<rparr>"

definition example_lookups :: "ExtendedActionState \<Rightarrow> ExtendedActionState \<Rightarrow> TrustLookups" where
  "example_lookups actionLevel originLevel =
     \<lparr>getExtendedActionState = (\<lambda>u. actionLevel),
      getExtendedInterstitialState = (\<lambda>u. originLevel),
      getExtendedWebsiteState = (\<lambda>u. originLevel),
      isInterstitial = (\<lambda>u. False)\<rparr>"

text \<open>
  A scenario: a container is mounted under the registry snapshot \<open>mounted\<close> with the default
  security level, and \<open>example_button\<close> is triggered under the snapshot \<open>fresh\<close>.
\<close>

definition example_run :: "TrustLookups \<Rightarrow> TrustLookups \<Rightarrow> Action \<Rightarrow> string option \<Rightarrow> ContainerState" where
  "example_run mounted fresh act websiteUrl =
     applyEffects (mount mounted act websiteUrl (normalizedSecurityLevel None))
       (execute fresh act websiteUrl (normalizedSecurityLevel None)
          (mount mounted act websiteUrl (normalizedSecurityLevel None)) example_button None)"

section \<open>Basic facts\<close>

lemma checkSecurityFromActionState_ActionOnly:
  "checkSecurityFromActionState (ActionOnly a) nsl = True"
  by (simp add: checkSecurityFromActionState_def)

lemma checkSecurityFromActionState_ActionWithOrigin:
  "checkSecurityFromActionState (ActionWithOrigin a org typ) nsl =
     (if checkSecurity a (nsl Actions) then checkSecurity org (nsl typ) else True)"
  by (simp add: checkSecurityFromActionState_def)

lemma spec_admitted_imp_checkSecurityFromActionState:
  "spec_admitted state nsl \<Longrightarrow> checkSecurityFromActionState state nsl"
  by (cases state) (simp_all add: spec_admitted_def checkSecurityFromActionState_def)

text \<open>The source function and the specified decision differ exactly where the action-level
  check fails.\<close>

lemma checkSecurityFromActionState_differs_from_spec:
  "(checkSecurityFromActionState state nsl \<noteq> spec_admitted state nsl) =
     (\<not> checkSecurity (action state) (nsl Actions))"
  by (cases state) (auto simp: spec_admitted_def checkSecurityFromActionState_def)

lemma checkSecurityFromActionState_eq_spec:
  "checkSecurity (action state) (nsl Actions) \<Longrightarrow>
   checkSecurityFromActionState state nsl = spec_admitted state nsl"
  using checkSecurityFromActionState_differs_from_spec [of state nsl] by simp

text \<open>
  The status a container mounts with; where the action level is admitted it is the status the
  specified decision gives.
\<close>

lemma status_mount:
  "status (executionState (mount lookups act websiteUrl nsl)) =
     (if overallState (getOverallActionState lookups act websiteUrl) \<noteq> Malicious \<and>
         checkSecurityFromActionState (getOverallActionState lookups act websiteUrl) nsl
      then Idle else Blocked)"
  by (simp add: mount_def Let_def)

lemma status_mount_action_admitted:
  "checkSecurity (action (getOverallActionState lookups act websiteUrl)) (nsl Actions) \<Longrightarrow>
   status (executionState (mount lookups act websiteUrl nsl)) =
     (if overallState (getOverallActionState lookups act websiteUrl) = Malicious \<or>
         \<not> spec_admitted (getOverallActionState lookups act websiteUrl) nsl
      then Blocked else Idle)"
  by (simp add: status_mount checkSecurityFromActionState_eq_spec)

lemma applyEffects_Nil: "applyEffects cs [] = cs"
  by (simp add: applyEffects_def)

lemma applyEffects_Cons: "applyEffects cs (e # es) = applyEffects (applyEffect cs e) es"
  by (simp add: applyEffects_def)

lemma applyEffects_append: "applyEffects cs (xs @ ys) = applyEffects (applyEffects cs xs) ys"
  by (simp add: applyEffects_def)

lemma applyEffects_setValueEffects: "applyEffects cs (setValueEffects component params) = cs"
  by (simp add: setValueEffects_def applyEffects_def split: option.splits)

lemma protocolSteps_append: "protocolSteps (xs @ ys) = protocolSteps xs @ protocolSteps ys"
  by (induction xs rule: protocolSteps.induct) simp_all

lemma protocolSteps_setValueEffects: "protocolSteps (setValueEffects component params) = []"
  by (simp add: setValueEffects_def split: option.splits)

text \<open>Only \<open>SetActionState\<close> changes the stored classification.\<close>

lemma actionState_applyEffects:
  "\<forall>s. SetActionState s \<notin> set effects \<Longrightarrow> actionState (applyEffects cs effects) = actionState cs"
proof (induction effects arbitrary: cs)
  case Nil
  show ?case by (simp add: applyEffects_Nil)
next
  case (Cons e effects)
  then show ?case by (cases e) (auto simp: applyEffects_Cons)
qed

lemma tryBody_no_SetActionState: "SetActionState s \<notin> set (fst (tryBody act component context))"
  by (simp add: tryBody_def split: sum.splits option.splits SignResult.splits)

text \<open>The two paths of \<^verbatim>\<open>execute\<close>.\<close>

lemma execute_blocked:
  "(action (getOverallActionState lookups act websiteUrl) \<noteq> action (actionState cs) \<or>
    origin (getOverallActionState lookups act websiteUrl) \<noteq> origin (actionState cs)) \<and>
   \<not> checkSecurityFromActionState (getOverallActionState lookups act websiteUrl) nsl \<Longrightarrow>
   execute lookups act websiteUrl nsl cs component params =
     setValueEffects component params @
     [SetActionState (getOverallActionState lookups act websiteUrl), Dispatch BLOCK]"
  by (simp add: execute_def Let_def)

lemma execute_initiated:
  "\<not> ((action (getOverallActionState lookups act websiteUrl) \<noteq> action (actionState cs) \<or>
        origin (getOverallActionState lookups act websiteUrl) \<noteq> origin (actionState cs)) \<and>
       \<not> checkSecurityFromActionState (getOverallActionState lookups act websiteUrl) nsl) \<Longrightarrow>
   execute lookups act websiteUrl nsl cs component params =
     setValueEffects component params @
     Dispatch (INITIATE component) #
     (case tryBody act component (executionContext act websiteUrl cs component) of
        (effects, Some e) \<Rightarrow>
          (case thrownMessage e of
             Inr msg \<Rightarrow> effects @ [Dispatch (FAIL msg)]
           | Inl err \<Rightarrow> effects @ [Reject err])
      | (effects, None) \<Rightarrow> effects)"
  by (simp add: execute_def Let_def)

lemma applyEffects_initiated:
  "executionState (applyEffects cs (setValueEffects component params @
      Dispatch (INITIATE component) # effects)) =
   executionState (applyEffects
     (cs\<lparr>executionState := \<lparr>status = Executing, executingAction = Defined component,
         errorMessage = Undefined, successMessage = Undefined\<rparr>\<rparr>) effects)"
  by (simp add: applyEffects_append applyEffects_setValueEffects applyEffects_Cons)

text \<open>While a component is executing, the rendered lists hold nothing else.\<close>

lemma set_buttons_executing:
  "executingAction es = Defined c \<Longrightarrow> set (buttons act es) \<subseteq> {c}"
  by (auto simp: buttons_def isExecutingOrNone_def dest: in_set_takeD)

lemma set_inputs_executing:
  "executingAction es = Defined c \<Longrightarrow> set (inputs act es) \<subseteq> {c}"
  by (auto simp: inputs_def isExecutingOrNone_def dest: in_set_takeD)


text \<open>The override exists exactly on the error snackbar of a passing check, and leads to idle.\<close>

lemma ignoreWarningAndProceed_offered:
  "(ignoreWarningAndProceed nsl cs \<noteq> None) =
     (overallState (actionState cs) = Malicious \<and> status (executionState cs) = Blocked \<and>
      checkSecurityFromActionState (actionState cs) nsl)"
  by (auto simp: ignoreWarningAndProceed_def disclaimer_def isPassingSecurityCheck_def
        split: bool.splits)

lemma ignoreWarningAndProceed_idle:
  "ignoreWarningAndProceed nsl cs = Some cs' \<Longrightarrow> status (executionState cs') = Idle"
  by (auto simp: ignoreWarningAndProceed_def split: Disclaimer.splits bool.splits)

text \<open>The concrete inputs.\<close>

lemma example_getOverallActionState:
  "getOverallActionState (example_lookups a b) act None = ActionOnly a"
  "getOverallActionState (example_lookups a b) act (Some (c # u)) = ActionWithOrigin a b Websites"
  by (simp_all add: getOverallActionState_def example_lookups_def)

lemma example_initiated:
  "\<not> ((action (getOverallActionState (example_lookups Trusted Trusted) act None) \<noteq>
          action (actionState (mount (example_lookups Trusted Trusted) act None nsl)) \<or>
        origin (getOverallActionState (example_lookups Trusted Trusted) act None) \<noteq>
          origin (actionState (mount (example_lookups Trusted Trusted) act None nsl))) \<and>
       \<not> checkSecurityFromActionState
           (getOverallActionState (example_lookups Trusted Trusted) act None) nsl)"
  by (simp add: mount_def Let_def)

section \<open>The admission check\<close>

text \<open>
  C1. The claim: the admission check returns true if and only if the action level is admitted by
  the policy's \<^verbatim>\<open>actions\<close> entry and the origin level is absent or admitted by the entry of its
  domain; in particular admission is false whenever the action-level check fails. The source
  function does not satisfy this. At a \<^verbatim>\<open>malicious\<close> action without origin under the policy
  \<^verbatim>\<open>only-trusted\<close> for every domain, and at a \<^verbatim>\<open>malicious\<close> action under a \<^verbatim>\<open>trusted\<close> website, the
  action-level check fails, the specified decision is false, and the source function returns
  true.
\<close>

theorem checkSecurityFromActionState_admits_failed_action_check:
  "checkSecurity Malicious ((\<lambda>_. OnlyTrusted) Actions) = False \<and>
   spec_admitted (ActionOnly Malicious) (\<lambda>_. OnlyTrusted) = False \<and>
   checkSecurityFromActionState (ActionOnly Malicious) (\<lambda>_. OnlyTrusted) = True \<and>
   spec_admitted (ActionWithOrigin Malicious Trusted Websites) (\<lambda>_. OnlyTrusted) = False \<and>
   checkSecurityFromActionState (ActionWithOrigin Malicious Trusted Websites) (\<lambda>_. OnlyTrusted) = True"
  by (simp add: spec_admitted_def checkSecurityFromActionState_def)

text \<open>
  C10. \<^verbatim>\<open>checkSecurityFromActionState\<close> returns false exactly when the action-level check passes,
  an origin is present and the origin-level check fails. Consequently it returns true for
  every state without origin, whatever the trust level of the action, and for every state whose
  action-level check fails.
\<close>

theorem checkSecurityFromActionState_false_only_for_origin:
  "((checkSecurityFromActionState state nsl = False) =
      (checkSecurity (action state) (nsl Actions) \<and>
       (\<exists>a org typ. state = ActionWithOrigin a org typ \<and> \<not> checkSecurity org (nsl typ)))) \<and>
   (origin state = None \<longrightarrow> checkSecurityFromActionState state nsl = True) \<and>
   (\<not> checkSecurity (action state) (nsl Actions) \<longrightarrow>
      checkSecurityFromActionState state nsl = True)"
  by (cases state) (simp_all add: checkSecurityFromActionState_def)

theorem checkSecurityFromActionState_false_only_for_origin_witness:
  "origin (ActionOnly Malicious) = None \<and>
   \<not> checkSecurity (action (ActionOnly Malicious)) ((\<lambda>_. OnlyTrusted) Actions) \<and>
   checkSecurityFromActionState (ActionOnly Malicious) (\<lambda>_. OnlyTrusted) = True \<and>
   checkSecurity (action (ActionWithOrigin Trusted Unknown Websites)) ((\<lambda>_. OnlyTrusted) Actions) \<and>
   checkSecurityFromActionState (ActionWithOrigin Trusted Unknown Websites) (\<lambda>_. OnlyTrusted) = False"
  using checkSecurityFromActionState_false_only_for_origin
          [of "ActionWithOrigin Trusted Unknown Websites" "\<lambda>_. OnlyTrusted"]
        checkSecurityFromActionState_false_only_for_origin
          [of "ActionOnly Malicious" "\<lambda>_. OnlyTrusted"]
  by simp

section \<open>Mounting and the override\<close>

text \<open>
  C3. The claim: a freshly mounted container is \<^verbatim>\<open>blocked\<close> if the merged trust level of its
  initial classification is \<^verbatim>\<open>malicious\<close> or the admission check reports false, and \<^verbatim>\<open>idle\<close>
  otherwise. The container does not satisfy this. Mounted with the default security level
  \<^verbatim>\<open>only-trusted\<close> on an \<^verbatim>\<open>unknown\<close> action without origin, the merged level is \<^verbatim>\<open>unknown\<close> and the
  policy does not admit the action, so that the specified admission is false; yet
  \<^verbatim>\<open>checkSecurityFromActionState\<close> reports true and the container mounts \<^verbatim>\<open>idle\<close>.
\<close>

theorem mount_idle_although_not_admitted:
  "actionState (mount (example_lookups Unknown Trusted)
      (example_action (example_adapter (Inr None) (Inr None) (Inr ())) (Inl (Thrown Null)))
      None (normalizedSecurityLevel None)) = ActionOnly Unknown \<and>
   overallState (ActionOnly Unknown) = Unknown \<and>
   checkSecurity Unknown (normalizedSecurityLevel None Actions) = False \<and>
   spec_admitted (ActionOnly Unknown) (normalizedSecurityLevel None) = False \<and>
   checkSecurityFromActionState (ActionOnly Unknown) (normalizedSecurityLevel None) = True \<and>
   status (executionState (mount (example_lookups Unknown Trusted)
      (example_action (example_adapter (Inr None) (Inr None) (Inr ())) (Inl (Thrown Null)))
      None (normalizedSecurityLevel None))) = Idle"
  by (simp add: mount_def Let_def example_getOverallActionState overallState_def
        checkSecurityFromActionState_def spec_admitted_def DEFAULT_SECURITY_LEVEL_def)

text \<open>
  C2. The claim: from \<^verbatim>\<open>blocked\<close> the override leads to \<^verbatim>\<open>idle\<close> and is offered exactly when the
  block is due only to a \<^verbatim>\<open>malicious\<close> classification that the policy would otherwise admit;
  where the configured policy itself forbids the level, the override is unavailable. The
  container does not satisfy the last part. Mounted with the default security level
  \<^verbatim>\<open>only-trusted\<close> on a \<^verbatim>\<open>malicious\<close> action without origin, it is \<^verbatim>\<open>blocked\<close>, the policy forbids
  the level, and yet the error snackbar carries the override button, whose click leads to
  \<^verbatim>\<open>idle\<close>.
\<close>

theorem override_offered_although_policy_forbids:
  "actionState (mount (example_lookups Malicious Trusted)
      (example_action (example_adapter (Inr None) (Inr None) (Inr ())) (Inl (Thrown Null)))
      None (normalizedSecurityLevel None)) = ActionOnly Malicious \<and>
   checkSecurity Malicious (normalizedSecurityLevel None Actions) = False \<and>
   spec_admitted (ActionOnly Malicious) (normalizedSecurityLevel None) = False \<and>
   status (executionState (mount (example_lookups Malicious Trusted)
      (example_action (example_adapter (Inr None) (Inr None) (Inr ())) (Inl (Thrown Null)))
      None (normalizedSecurityLevel None))) = Blocked \<and>
   disclaimer (normalizedSecurityLevel None) (mount (example_lookups Malicious Trusted)
      (example_action (example_adapter (Inr None) (Inr None) (Inr ())) (Inl (Thrown Null)))
      None (normalizedSecurityLevel None)) = ErrorSnackbar False True \<and>
   map_option (\<lambda>cs. status (executionState cs))
     (ignoreWarningAndProceed (normalizedSecurityLevel None) (mount (example_lookups Malicious Trusted)
        (example_action (example_adapter (Inr None) (Inr None) (Inr ())) (Inl (Thrown Null)))
        None (normalizedSecurityLevel None))) = Some Idle"
  by (simp add: mount_def Let_def example_getOverallActionState overallState_def
        checkSecurityFromActionState_def spec_admitted_def DEFAULT_SECURITY_LEVEL_def
        disclaimer_def isPassingSecurityCheck_def ignoreWarningAndProceed_def)

section \<open>The execution protocol\<close>

text \<open>
  The two paths of \<^verbatim>\<open>execute\<close> in full. If the fresh action or origin level differs from the
  stored one and the fresh \<^verbatim>\<open>checkSecurityFromActionState\<close> fails, the call stores the new
  classification, dispatches \<^verbatim>\<open>BLOCK\<close> and awaits no protocol step. Otherwise it dispatches
  \<^verbatim>\<open>INITIATE\<close> before anything else, which makes the container \<^verbatim>\<open>executing\<close> with
  \<^verbatim>\<open>executingAction\<close> that very component, and the stored classification stays as it was.
\<close>

lemma execute_paths:
  "((action (getOverallActionState lookups act websiteUrl) \<noteq> action (actionState cs) \<or>
     origin (getOverallActionState lookups act websiteUrl) \<noteq> origin (actionState cs)) \<and>
    \<not> checkSecurityFromActionState (getOverallActionState lookups act websiteUrl) nsl \<longrightarrow>
      execute lookups act websiteUrl nsl cs component params =
        setValueEffects component params @
        [SetActionState (getOverallActionState lookups act websiteUrl), Dispatch BLOCK] \<and>
      protocolSteps (execute lookups act websiteUrl nsl cs component params) = [] \<and>
      status (executionState
        (applyEffects cs (execute lookups act websiteUrl nsl cs component params))) = Blocked \<and>
      actionState (applyEffects cs (execute lookups act websiteUrl nsl cs component params)) =
        getOverallActionState lookups act websiteUrl) \<and>
   (\<not> ((action (getOverallActionState lookups act websiteUrl) \<noteq> action (actionState cs) \<or>
         origin (getOverallActionState lookups act websiteUrl) \<noteq> origin (actionState cs)) \<and>
        \<not> checkSecurityFromActionState (getOverallActionState lookups act websiteUrl) nsl) \<longrightarrow>
      (\<exists>rest. execute lookups act websiteUrl nsl cs component params =
         setValueEffects component params @ Dispatch (INITIATE component) # rest) \<and>
      executionState
        (applyEffects cs (setValueEffects component params @ [Dispatch (INITIATE component)])) =
        \<lparr>status = Executing, executingAction = Defined component,
         errorMessage = Undefined, successMessage = Undefined\<rparr> \<and>
      actionState (applyEffects cs (execute lookups act websiteUrl nsl cs component params)) =
        actionState cs)"
proof (intro conjI impI)
  assume b: "(action (getOverallActionState lookups act websiteUrl) \<noteq> action (actionState cs) \<or>
     origin (getOverallActionState lookups act websiteUrl) \<noteq> origin (actionState cs)) \<and>
    \<not> checkSecurityFromActionState (getOverallActionState lookups act websiteUrl) nsl"
  note e = execute_blocked [OF b, of component params]
  show "execute lookups act websiteUrl nsl cs component params =
        setValueEffects component params @
        [SetActionState (getOverallActionState lookups act websiteUrl), Dispatch BLOCK]"
    by (rule e)
  show "protocolSteps (execute lookups act websiteUrl nsl cs component params) = []"
    by (simp add: e protocolSteps_append protocolSteps_setValueEffects)
  show "status (executionState
        (applyEffects cs (execute lookups act websiteUrl nsl cs component params))) = Blocked"
    by (simp add: e applyEffects_append applyEffects_setValueEffects applyEffects_Cons
          applyEffects_Nil)
  show "actionState (applyEffects cs (execute lookups act websiteUrl nsl cs component params)) =
        getOverallActionState lookups act websiteUrl"
    by (simp add: e applyEffects_append applyEffects_setValueEffects applyEffects_Cons
          applyEffects_Nil)
next
  assume n: "\<not> ((action (getOverallActionState lookups act websiteUrl) \<noteq> action (actionState cs) \<or>
         origin (getOverallActionState lookups act websiteUrl) \<noteq> origin (actionState cs)) \<and>
        \<not> checkSecurityFromActionState (getOverallActionState lookups act websiteUrl) nsl)"
  note e = execute_initiated [OF n, of component params]
  show "\<exists>rest. execute lookups act websiteUrl nsl cs component params =
         setValueEffects component params @ Dispatch (INITIATE component) # rest"
    unfolding e by blast
  show "executionState
        (applyEffects cs (setValueEffects component params @ [Dispatch (INITIATE component)])) =
        \<lparr>status = Executing, executingAction = Defined component,
         errorMessage = Undefined, successMessage = Undefined\<rparr>"
    by (simp add: applyEffects_append applyEffects_setValueEffects applyEffects_Cons
          applyEffects_Nil)
  obtain effects r where
    t: "tryBody act component (executionContext act websiteUrl cs component) = (effects, r)"
    by (cases "tryBody act component (executionContext act websiteUrl cs component)")
  have "SetActionState s \<notin> set effects" for s
    using tryBody_no_SetActionState [of s act component "executionContext act websiteUrl cs component"]
    by (simp add: t)
  then have "SetActionState s \<notin> set (execute lookups act websiteUrl nsl cs component params)" for s
    by (cases r) (auto simp: e t setValueEffects_def split: option.splits sum.splits)
  then show "actionState (applyEffects cs (execute lookups act websiteUrl nsl cs component params)) =
        actionState cs"
    by (simp add: actionState_applyEffects)
qed

text \<open>
  C4. The claim: \<^verbatim>\<open>execute(component)\<close> recomputes the classification; if it differs from the
  stored one and the fresh admission check fails, the container becomes \<^verbatim>\<open>blocked\<close> and no
  protocol step runs; otherwise the component is executed. The container does not satisfy the
  first part. Mounted \<^verbatim>\<open>idle\<close> with the default security level \<^verbatim>\<open>only-trusted\<close> on a \<^verbatim>\<open>trusted\<close>
  action without origin, and triggered after the registry has come to classify the action as
  \<^verbatim>\<open>malicious\<close>, the fresh classification differs from the stored one and the policy does not
  admit it; yet \<^verbatim>\<open>execute\<close> dispatches \<^verbatim>\<open>INITIATE\<close>, awaits all four protocol steps and ends in
  \<^verbatim>\<open>success\<close>.
\<close>

theorem execute_initiates_although_not_admitted:
  "status (executionState (mount (example_lookups Trusted Trusted)
      (example_action
         (example_adapter (Inr (Some ''account'')) (Inr (Some (Signature ''signature''))) (Inr ()))
         (Inr \<lparr>transaction = ''payload'', message = Defined ''Swap complete''\<rparr>))
      None (normalizedSecurityLevel None))) = Idle \<and>
   actionState (mount (example_lookups Trusted Trusted)
      (example_action
         (example_adapter (Inr (Some ''account'')) (Inr (Some (Signature ''signature''))) (Inr ()))
         (Inr \<lparr>transaction = ''payload'', message = Defined ''Swap complete''\<rparr>))
      None (normalizedSecurityLevel None)) = ActionOnly Trusted \<and>
   getOverallActionState (example_lookups Malicious Trusted)
      (example_action
         (example_adapter (Inr (Some ''account'')) (Inr (Some (Signature ''signature''))) (Inr ()))
         (Inr \<lparr>transaction = ''payload'', message = Defined ''Swap complete''\<rparr>))
      None = ActionOnly Malicious \<and>
   spec_admitted (ActionOnly Malicious) (normalizedSecurityLevel None) = False \<and>
   execute (example_lookups Malicious Trusted)
      (example_action
         (example_adapter (Inr (Some ''account'')) (Inr (Some (Signature ''signature''))) (Inr ()))
         (Inr \<lparr>transaction = ''payload'', message = Defined ''Swap complete''\<rparr>))
      None (normalizedSecurityLevel None)
      (mount (example_lookups Trusted Trusted)
         (example_action
            (example_adapter (Inr (Some ''account'')) (Inr (Some (Signature ''signature''))) (Inr ()))
            (Inr \<lparr>transaction = ''payload'', message = Defined ''Swap complete''\<rparr>))
         None (normalizedSecurityLevel None))
      example_button None =
     [Dispatch (INITIATE example_button), Await Connect, Await Post, Await SignTransaction,
      Await ConfirmTransaction, Dispatch (FINISH (Defined ''Swap complete''))] \<and>
   status (executionState (example_run (example_lookups Trusted Trusted)
      (example_lookups Malicious Trusted)
      (example_action
         (example_adapter (Inr (Some ''account'')) (Inr (Some (Signature ''signature''))) (Inr ()))
         (Inr \<lparr>transaction = ''payload'', message = Defined ''Swap complete''\<rparr>))
      None)) = Success"
  by (simp add: example_run_def mount_def Let_def example_getOverallActionState overallState_def
        checkSecurityFromActionState_def spec_admitted_def DEFAULT_SECURITY_LEVEL_def
        execute_def setValueEffects_def tryBody_def executionContext_def applyEffects_def
        example_action_def example_adapter_def example_button_def)

theorem execute_initiates_although_not_admitted_witness:
  "protocolSteps (execute (example_lookups Malicious Trusted)
      (example_action
         (example_adapter (Inr (Some ''account'')) (Inr (Some (Signature ''signature''))) (Inr ()))
         (Inr \<lparr>transaction = ''payload'', message = Defined ''Swap complete''\<rparr>))
      None (normalizedSecurityLevel None)
      (mount (example_lookups Trusted Trusted)
         (example_action
            (example_adapter (Inr (Some ''account'')) (Inr (Some (Signature ''signature''))) (Inr ()))
            (Inr \<lparr>transaction = ''payload'', message = Defined ''Swap complete''\<rparr>))
         None (normalizedSecurityLevel None))
      example_button None) =
     [Connect, Post, SignTransaction, ConfirmTransaction] \<and>
   status (executionState (example_run (example_lookups Trusted Trusted)
      (example_lookups Malicious Trusted)
      (example_action
         (example_adapter (Inr (Some ''account'')) (Inr (Some (Signature ''signature''))) (Inr ()))
         (Inr \<lparr>transaction = ''payload'', message = Defined ''Swap complete''\<rparr>))
      None)) \<noteq> Blocked"
proof -
  note run = execute_initiates_although_not_admitted
  from run show ?thesis by simp
qed

text \<open>
  C5. Once execution has been initiated: if \<^verbatim>\<open>connect\<close> resolves to no account (\<^verbatim>\<open>null\<close>, or the
  empty string, which \<^verbatim>\<open>!account\<close> treats alike), or if \<^verbatim>\<open>signTransaction\<close> returns, without
  throwing, a falsy result or an error result, then the container ends \<^verbatim>\<open>idle\<close> with
  \<^verbatim>\<open>executingAction\<close>, \<^verbatim>\<open>errorMessage\<close> and \<^verbatim>\<open>successMessage\<close> all unset.
\<close>

theorem execute_silent_cancel:
  assumes initiated:
    "\<not> ((action (getOverallActionState lookups act websiteUrl) \<noteq> action (actionState cs) \<or>
          origin (getOverallActionState lookups act websiteUrl) \<noteq> origin (actionState cs)) \<and>
         \<not> checkSecurityFromActionState (getOverallActionState lookups act websiteUrl) nsl)"
    and declined:
    "connect (adapter act) (executionContext act websiteUrl cs component) = Inr None \<or>
     connect (adapter act) (executionContext act websiteUrl cs component) = Inr (Some []) \<or>
     (\<exists>account tx.
        connect (adapter act) (executionContext act websiteUrl cs component) = Inr (Some account) \<and>
        account \<noteq> [] \<and> post act component account = Inr tx \<and>
        (signTransaction (adapter act) (transaction tx)
           (executionContext act websiteUrl cs component) = Inr None \<or>
         (\<exists>err. signTransaction (adapter act) (transaction tx)
           (executionContext act websiteUrl cs component) = Inr (Some (SignError err)))))"
  shows "executionState (applyEffects cs (execute lookups act websiteUrl nsl cs component params)) =
     \<lparr>status = Idle, executingAction = Undefined, errorMessage = Undefined,
      successMessage = Undefined\<rparr>"
  using declined
  by (auto simp: execute_initiated [OF initiated] applyEffects_initiated tryBody_def
        applyEffects_Cons applyEffects_Nil)

theorem execute_silent_cancel_witness:
  "executionState (example_run (example_lookups Trusted Trusted) (example_lookups Trusted Trusted)
      (example_action (example_adapter (Inr None) (Inr None) (Inr ())) (Inl (Thrown Null)))
      None) =
     \<lparr>status = Idle, executingAction = Undefined, errorMessage = Undefined,
      successMessage = Undefined\<rparr> \<and>
   executionState (example_run (example_lookups Trusted Trusted) (example_lookups Trusted Trusted)
      (example_action
         (example_adapter (Inr (Some ''account'')) (Inr (Some (SignError ''rejected''))) (Inr ()))
         (Inr \<lparr>transaction = ''payload'', message = Defined ''Swap complete''\<rparr>))
      None) =
     \<lparr>status = Idle, executingAction = Undefined, errorMessage = Undefined,
      successMessage = Undefined\<rparr>"
  unfolding example_run_def
  by (rule conjI; rule execute_silent_cancel [OF example_initiated])
     (simp_all add: example_action_def example_adapter_def)

text \<open>
  A step that throws \<^verbatim>\<open>null\<close> or \<^verbatim>\<open>undefined\<close>: the handler raises while it reads the message,
  \<^verbatim>\<open>FAIL\<close> is not dispatched and the container stays \<^verbatim>\<open>executing\<close>.
\<close>

lemma execute_throw_nullish:
  assumes initiated:
    "\<not> ((action (getOverallActionState lookups act websiteUrl) \<noteq> action (actionState cs) \<or>
          origin (getOverallActionState lookups act websiteUrl) \<noteq> origin (actionState cs)) \<and>
         \<not> checkSecurityFromActionState (getOverallActionState lookups act websiteUrl) nsl)"
    and thrown:
    "connect (adapter act) (executionContext act websiteUrl cs component) = Inl ThrownNullish \<or>
     (\<exists>account.
        connect (adapter act) (executionContext act websiteUrl cs component) = Inr (Some account) \<and>
        account \<noteq> [] \<and>
        (post act component account = Inl ThrownNullish \<or>
         (\<exists>tx. post act component account = Inr tx \<and>
            (signTransaction (adapter act) (transaction tx)
               (executionContext act websiteUrl cs component) = Inl ThrownNullish \<or>
             (\<exists>signature.
                signTransaction (adapter act) (transaction tx)
                  (executionContext act websiteUrl cs component) = Inr (Some (Signature signature)) \<and>
                confirmTransaction (adapter act) signature
                  (executionContext act websiteUrl cs component) = Inl ThrownNullish)))))"
  shows "executionState (applyEffects cs (execute lookups act websiteUrl nsl cs component params)) =
     \<lparr>status = Executing, executingAction = Defined component, errorMessage = Undefined,
      successMessage = Undefined\<rparr>"
  using thrown
  by (auto simp: execute_initiated [OF initiated] applyEffects_initiated tryBody_def
        applyEffects_Cons applyEffects_Nil applyEffects_append)




text \<open>
  C7. Once execution has been initiated: if \<^verbatim>\<open>connect\<close> returns an account, \<^verbatim>\<open>post\<close> returns a
  transaction, \<^verbatim>\<open>signTransaction\<close> returns a signature and \<^verbatim>\<open>confirmTransaction\<close> returns, the
  container ends in \<^verbatim>\<open>success\<close>, with \<^verbatim>\<open>successMessage\<close> the message that came with the
  transaction (\<^verbatim>\<open>tx.message\<close>) and \<^verbatim>\<open>errorMessage\<close> set to \<^verbatim>\<open>null\<close>, after the four protocol steps
  in order.
\<close>

theorem execute_all_steps_succeed:
  assumes initiated:
    "\<not> ((action (getOverallActionState lookups act websiteUrl) \<noteq> action (actionState cs) \<or>
          origin (getOverallActionState lookups act websiteUrl) \<noteq> origin (actionState cs)) \<and>
         \<not> checkSecurityFromActionState (getOverallActionState lookups act websiteUrl) nsl)"
    and connected:
      "connect (adapter act) (executionContext act websiteUrl cs component) = Inr (Some account)"
      "account \<noteq> []"
    and posted: "post act component account = Inr tx"
    and signed:
      "signTransaction (adapter act) (transaction tx)
         (executionContext act websiteUrl cs component) = Inr (Some (Signature signature))"
    and confirmed:
      "confirmTransaction (adapter act) signature
         (executionContext act websiteUrl cs component) = Inr ()"
  shows "executionState (applyEffects cs (execute lookups act websiteUrl nsl cs component params)) =
     \<lparr>status = Success, executingAction = Defined component, errorMessage = Null,
      successMessage = message tx\<rparr> \<and>
     protocolSteps (execute lookups act websiteUrl nsl cs component params) =
       [Connect, Post, SignTransaction, ConfirmTransaction]"
  using connected posted signed confirmed
  by (simp add: execute_initiated [OF initiated] applyEffects_initiated tryBody_def
        applyEffects_Cons applyEffects_Nil protocolSteps_append protocolSteps_setValueEffects)

theorem execute_all_steps_succeed_witness:
  "executionState (example_run (example_lookups Trusted Trusted) (example_lookups Trusted Trusted)
      (example_action
         (example_adapter (Inr (Some ''account'')) (Inr (Some (Signature ''signature''))) (Inr ()))
         (Inr \<lparr>transaction = ''payload'', message = Defined ''Swap complete''\<rparr>))
      None) =
     \<lparr>status = Success, executingAction = Defined example_button, errorMessage = Null,
      successMessage = Defined ''Swap complete''\<rparr>"
  using execute_all_steps_succeed
     [where lookups = "example_lookups Trusted Trusted" and websiteUrl = None
        and nsl = "normalizedSecurityLevel None" and component = example_button and params = None
        and act = "example_action
           (example_adapter (Inr (Some ''account'')) (Inr (Some (Signature ''signature''))) (Inr ()))
           (Inr \<lparr>transaction = ''payload'', message = Defined ''Swap complete''\<rparr>)"
        and cs = "mount (example_lookups Trusted Trusted)
           (example_action
             (example_adapter (Inr (Some ''account'')) (Inr (Some (Signature ''signature'')))
                (Inr ()))
             (Inr \<lparr>transaction = ''payload'', message = Defined ''Swap complete''\<rparr>))
           None (normalizedSecurityLevel None)"
        and account = "''account''" and signature = "''signature''"
        and tx = "\<lparr>transaction = ''payload'', message = Defined ''Swap complete''\<rparr>",
      OF example_initiated]
  unfolding example_run_def
  by (simp add: example_action_def example_adapter_def)

section \<open>Rendering\<close>

text \<open>
  C8. In every execution state, hence in every reachable one, at most one component is marked
  as executing: \<^verbatim>\<open>executingAction\<close> is a single optional component; the \<^verbatim>\<open>loading\<close> flag of a
  component is true only when the status is \<^verbatim>\<open>executing\<close> and the component is
  \<^verbatim>\<open>executingAction\<close>, so that two loading components are the same; and while
  \<^verbatim>\<open>executingAction\<close> holds a component, the rendered button and input lists hold no other
  component.
\<close>

theorem at_most_one_component_executing:
  "(loading (asButtonProps act es it) \<longrightarrow>
      status es = Executing \<and> executingAction es = Defined it) \<and>
   (loading (asButtonProps act es it) \<and> loading (asButtonProps act es other) \<longrightarrow> other = it) \<and>
   (executingAction es = Defined it \<longrightarrow>
      (\<forall>other \<in> set (buttons act es) \<union> set (inputs act es). other = it))"
proof (intro conjI impI ballI)
  assume "loading (asButtonProps act es it)"
  then show "status es = Executing" and "executingAction es = Defined it"
    by (simp_all add: asButtonProps_def)
next
  assume "loading (asButtonProps act es it) \<and> loading (asButtonProps act es other)"
  then have "Defined it = executingAction es" and "Defined other = executingAction es"
    by (simp_all add: asButtonProps_def)
  then have "Defined other = Defined it" by simp
  then show "other = it" by simp
next
  fix other
  assume e: "executingAction es = Defined it"
    and o: "other \<in> set (buttons act es) \<union> set (inputs act es)"
  from o set_buttons_executing [OF e, of act] set_inputs_executing [OF e, of act]
  show "other = it" by blast
qed

theorem at_most_one_component_executing_witness:
  "loading (asButtonProps
      (example_action (example_adapter (Inr None) (Inr None) (Inr ())) (Inl (Thrown Null)))
      (executionReducer
         \<lparr>status = Idle, executingAction = Undefined, errorMessage = Undefined,
          successMessage = Undefined\<rparr> (INITIATE example_button))
      example_button) \<and>
   \<not> loading (asButtonProps
      (example_action (example_adapter (Inr None) (Inr None) (Inr ())) (Inl (Thrown Null)))
      (executionReducer
         \<lparr>status = Idle, executingAction = Undefined, errorMessage = Undefined,
          successMessage = Undefined\<rparr> (INITIATE example_button))
      example_other_button) \<and>
   buttons (example_action (example_adapter (Inr None) (Inr None) (Inr ())) (Inl (Thrown Null)))
      (executionReducer
         \<lparr>status = Idle, executingAction = Undefined, errorMessage = Undefined,
          successMessage = Undefined\<rparr> (INITIATE example_button)) = [example_button] \<and>
   inputs (example_action (example_adapter (Inr None) (Inr None) (Inr ())) (Inl (Thrown Null)))
      (executionReducer
         \<lparr>status = Idle, executingAction = Undefined, errorMessage = Undefined,
          successMessage = Undefined\<rparr> (INITIATE example_button)) = []"
  using at_most_one_component_executing
     [of "example_action (example_adapter (Inr None) (Inr None) (Inr ())) (Inl (Thrown Null))"
         "executionReducer
           \<lparr>status = Idle, executingAction = Undefined, errorMessage = Undefined,
            successMessage = Undefined\<rparr> (INITIATE example_button)"
         example_button example_other_button]
  by (simp add: asButtonProps_def buttons_def inputs_def isExecutingOrNone_def
        SOFT_LIMIT_BUTTONS_def SOFT_LIMIT_INPUTS_def example_action_def example_button_def
        example_other_button_def example_input_def)



end
